theory Spec2Isabelle
  imports Complex_Main
begin

section \<open>Errors\<close>

text \<open>
  The Python exceptions that the modelled functions can raise. A function that can raise
  returns a sum, \<open>Inl\<close> carrying the exception.
\<close>

datatype py_error = ValueError | IndexError | RuntimeError

section \<open>CSV export: \<open>utils/csv/save_csv.py\<close>\<close>

subsection \<open>Column names\<close>

definition base_columns :: "string list" where
  "base_columns =
    [''Timecode'', ''BlendshapeCount'', ''EyeBlinkLeft'', ''EyeLookDownLeft'', ''EyeLookInLeft'',
     ''EyeLookOutLeft'', ''EyeLookUpLeft'',
     ''EyeSquintLeft'', ''EyeWideLeft'', ''EyeBlinkRight'', ''EyeLookDownRight'',
     ''EyeLookInRight'', ''EyeLookOutRight'', ''EyeLookUpRight'',
     ''EyeSquintRight'', ''EyeWideRight'', ''JawForward'', ''JawRight'', ''JawLeft'', ''JawOpen'',
     ''MouthClose'', ''MouthFunnel'', ''MouthPucker'',
     ''MouthRight'', ''MouthLeft'', ''MouthSmileLeft'', ''MouthSmileRight'', ''MouthFrownLeft'',
     ''MouthFrownRight'', ''MouthDimpleLeft'',
     ''MouthDimpleRight'', ''MouthStretchLeft'', ''MouthStretchRight'', ''MouthRollLower'',
     ''MouthRollUpper'', ''MouthShrugLower'',
     ''MouthShrugUpper'', ''MouthPressLeft'', ''MouthPressRight'', ''MouthLowerDownLeft'',
     ''MouthLowerDownRight'', ''MouthUpperUpLeft'',
     ''MouthUpperUpRight'', ''BrowDownLeft'', ''BrowDownRight'', ''BrowInnerUp'',
     ''BrowOuterUpLeft'', ''BrowOuterUpRight'', ''CheekPuff'',
     ''CheekSquintLeft'', ''CheekSquintRight'', ''NoseSneerLeft'', ''NoseSneerRight'',
     ''TongueOut'', ''HeadYaw'', ''HeadPitch'', ''HeadRoll'',
     ''LeftEyeYaw'', ''LeftEyePitch'', ''LeftEyeRoll'', ''RightEyeYaw'', ''RightEyePitch'',
     ''RightEyeRoll'']"

definition emotion_columns :: "string list" where
  "emotion_columns =
    [''Angry'', ''Disgusted'', ''Fearful'', ''Happy'', ''Neutral'', ''Sad'', ''Surprised'']"

subsection \<open>Arrays\<close>

text \<open>
  \<open>generated\<close> is a Python list of rows, each a list of numbers. \<open>np.array\<close> turns a
  non-empty list of rows of one common length \<open>c\<close> into a two-dimensional array of shape
  \<open>(n, c)\<close>, the empty list into a one-dimensional array of shape \<open>(0,)\<close>, and refuses rows
  of different lengths (\<open>ValueError\<close>, from NumPy 1.24 on). An array is kept as its shape
  and its rows.
\<close>

record 'a ndarray =
  shape :: "nat list"
  rows :: "'a list list"

definition np_array :: "'a list list \<Rightarrow> py_error + 'a ndarray" where
  "np_array g =
    (case g of
       [] \<Rightarrow> Inr \<lparr>shape = [0], rows = []\<rparr>
     | r # rs \<Rightarrow>
         if list_all (\<lambda>r'. length r' = length r) rs
         then Inr \<lparr>shape = [length g, length r], rows = g\<rparr>
         else Inl ValueError)"

text \<open>\<open>a.shape[i]\<close>: indexing the shape tuple out of range raises \<open>IndexError\<close>.\<close>

definition shape_at :: "'a ndarray \<Rightarrow> nat \<Rightarrow> py_error + nat" where
  "shape_at a i = (if i < length (shape a) then Inr (shape a ! i) else Inl IndexError)"

text \<open>\<open>a[:, :k]\<close> on a two-dimensional array keeps the first \<open>k\<close> columns of every row.\<close>

definition slice_cols :: "nat \<Rightarrow> 'a ndarray \<Rightarrow> 'a ndarray" where
  "slice_cols k a =
    \<lparr>shape = [shape a ! 0, min k (shape a ! 1)], rows = map (take k) (rows a)\<rparr>"

subsection \<open>Decimal strings\<close>

definition digit_char :: "nat \<Rightarrow> char" where
  "digit_char d = ''0123456789'' ! d"

fun str_nat :: "nat \<Rightarrow> string" where
  "str_nat n = (if n < 10 then [digit_char n] else str_nat (n div 10) @ [digit_char (n mod 10)])"

declare str_nat.simps [simp del]

subsection \<open>The exporter\<close>

text \<open>
  \<open>np.hstack((timecodes, blendshape_counts, selected_data))\<close> joins three arrays of \<open>n\<close>
  rows column-wise; because \<open>timecodes\<close> is an array of strings the result is an array of
  strings, every number converted to its text. The conversion of a data value is the
  parameter \<open>str_of\<close>; the count is an integer and is written in decimal. The arrays
  differ in their row count only if \<open>frame_count\<close> and the data disagree, and then
  \<open>hstack\<close> raises \<open>ValueError\<close>.
\<close>

definition hstack3 ::
  "string list list \<Rightarrow> string list list \<Rightarrow> string list list \<Rightarrow> py_error + string list list" where
  "hstack3 a b c =
    (if length a = length b \<and> length b = length c
     then Inr (map (\<lambda>i. a ! i @ b ! i @ c ! i) [0..<length a])
     else Inl ValueError)"

text \<open>
  A data frame is its column names and its rows; \<open>pd.DataFrame(data, columns=names)\<close>
  raises \<open>ValueError\<close> when the number of names is not the number of columns of \<open>data\<close>.
  \<open>to_csv(path, index=False)\<close> writes the names as the header line and one line per row.
\<close>

record csv_file =
  header :: "string list"
  body :: "string list list"

definition DataFrame :: "nat \<Rightarrow> string list list \<Rightarrow> string list \<Rightarrow> py_error + csv_file" where
  "DataFrame ncols data columns =
    (if ncols = length columns then Inr \<lparr>header = columns, body = data\<rparr> else Inl ValueError)"

type_synonym filesystem = "string \<rightharpoonup> csv_file"

text \<open>
  Lines 22 to 61 of \<open>save_generated_data_as_csv\<close>: everything up to the data frame. The
  text of the \<open>i\<close>-th timecode (lines 45 to 50, floating-point arithmetic) is the parameter
  \<open>timecode\<close>.
\<close>

definition build_frame ::
  "(nat \<Rightarrow> string) \<Rightarrow> ('a \<Rightarrow> string) \<Rightarrow> 'a list list \<Rightarrow> bool \<Rightarrow> py_error + csv_file" where
  "build_frame timecode str_of generated_list include_emotion_dimensions =
    (case np_array generated_list of
       Inl e \<Rightarrow> Inl e
     | Inr generated \<Rightarrow>
        (case shape_at generated 1 of
           Inl e \<Rightarrow> Inl e
         | Inr ncols \<Rightarrow>
            if ncols \<notin> set [68, 61] then Inl ValueError
            else
              let selected_columns =
                    (if include_emotion_dimensions then base_columns @ emotion_columns
                     else base_columns);
                  selected_data =
                    (if include_emotion_dimensions then generated else slice_cols 61 generated);
                  frame_count = shape generated ! 0;
                  timecodes = map (\<lambda>i. [timecode i]) [0..<frame_count];
                  blendshape_counts = replicate frame_count [str_nat (shape selected_data ! 1)]
              in (case hstack3 timecodes blendshape_counts (map (map str_of) (rows selected_data)) of
                    Inl e \<Rightarrow> Inl e
                  | Inr data \<Rightarrow> DataFrame (1 + 1 + shape selected_data ! 1) data selected_columns)))"

text \<open>
  The whole function on a file system: the only write is the last statement, so an
  exception leaves the file system as it was. The result is the outcome (the exception,
  or \<open>Inr ()\<close> for a normal return) and the file system afterwards.
\<close>

definition save_generated_data_as_csv ::
  "(nat \<Rightarrow> string) \<Rightarrow> ('a \<Rightarrow> string) \<Rightarrow> 'a list list \<Rightarrow> string \<Rightarrow> bool \<Rightarrow> filesystem
    \<Rightarrow> (py_error + unit) \<times> filesystem" where
  "save_generated_data_as_csv timecode str_of generated output_path include_emotion_dimensions fs =
    (case build_frame timecode str_of generated include_emotion_dimensions of
       Inl e \<Rightarrow> (Inl e, fs)
     | Inr df \<Rightarrow> (Inr (), fs(output_path \<mapsto> df)))"

text \<open>An input matrix with \<open>c\<close> columns: at least one row, every row of length \<open>c\<close>.\<close>

definition matrix_with_cols :: "nat \<Rightarrow> 'a list list \<Rightarrow> bool" where
  "matrix_with_cols c g \<longleftrightarrow> g \<noteq> [] \<and> list_all (\<lambda>r. length r = c) g"

section \<open>Properties of the CSV export\<close>

lemma np_array_matrix:
  assumes "matrix_with_cols c g"
  shows "np_array g = Inr \<lparr>shape = [length g, c], rows = g\<rparr>"
proof -
  from assms obtain r rs where g: "g = r # rs"
    by (cases g) (auto simp: matrix_with_cols_def)
  with assms have "length r = c" and "list_all (\<lambda>r'. length r' = c) rs"
    by (auto simp: matrix_with_cols_def)
  then show ?thesis
    by (simp add: np_array_def g)
qed

lemma length_base_columns: "length base_columns = 63"
  by (simp add: base_columns_def)

lemma length_emotion_columns: "length emotion_columns = 7"
  by (simp add: emotion_columns_def)

lemma str_nat_61: "str_nat 61 = ''61''"
  by (simp add: str_nat.simps digit_char_def)

lemma str_nat_68: "str_nat 68 = ''68''"
  by (simp add: str_nat.simps digit_char_def)

lemma build_frame_ok:
  assumes m: "matrix_with_cols c g"
    and c: "c = 68 \<or> (c = 61 \<and> \<not> inc)"
  shows "build_frame tc s g inc =
    Inr \<lparr>header = (if inc then base_columns @ emotion_columns else base_columns),
         body = map (\<lambda>i. tc i # str_nat (if inc then 68 else 61) #
                         map s (if inc then g ! i else take 61 (g ! i))) [0..<length g]\<rparr>"
proof -
  note arr = np_array_matrix [OF m]
  show ?thesis
  proof (cases inc)
    case True
    with c have c68: "c = 68" by simp
    have h: "hstack3 (map (\<lambda>i. [tc i]) [0..<length g]) (replicate (length g) [str_nat 68])
               (map (map s) g)
             = Inr (map (\<lambda>i. tc i # str_nat 68 # map s (g ! i)) [0..<length g])"
      by (simp add: hstack3_def)
    show ?thesis
      using True c68 h
      by (simp add: build_frame_def arr shape_at_def DataFrame_def
          length_base_columns length_emotion_columns)
  next
    case False
    from c have cc: "c = 68 \<or> c = 61" by auto
    have h: "hstack3 (map (\<lambda>i. [tc i]) [0..<length g]) (replicate (length g) [str_nat 61])
               (map (map s) (map (take 61) g))
             = Inr (map (\<lambda>i. tc i # str_nat 61 # map s (take 61 (g ! i))) [0..<length g])"
      by (simp add: hstack3_def)
    from cc show ?thesis
      using False h
      by (auto simp add: build_frame_def arr shape_at_def DataFrame_def slice_cols_def
          length_base_columns)
  qed
qed

lemma build_frame_bad_cols:
  assumes m: "matrix_with_cols c g" and c: "c \<noteq> 61" "c \<noteq> 68"
  shows "build_frame tc s g inc = Inl ValueError"
  using c by (simp add: build_frame_def np_array_matrix [OF m] shape_at_def)

lemma build_frame_61_emotions:
  assumes m: "matrix_with_cols 61 g"
  shows "build_frame tc s g True = Inl ValueError"
  by (simp add: build_frame_def np_array_matrix [OF m] shape_at_def hstack3_def
      DataFrame_def length_base_columns length_emotion_columns)

lemma np_array_Inr:
  assumes "np_array g = Inr a" and "shape_at a 1 = Inr c"
  shows "matrix_with_cols c g"
proof (cases g)
  case Nil
  with assms show ?thesis by (auto simp: np_array_def shape_at_def)
next
  case (Cons r rs)
  with assms show ?thesis
    by (auto simp: np_array_def shape_at_def matrix_with_cols_def split: if_splits)
qed

text \<open>
  The inputs on which the exporter returns normally: matrices of 68 columns, and matrices
  of 61 columns when the emotion columns are not asked for.
\<close>

lemma build_frame_Inr:
  assumes "build_frame tc s g inc = Inr df"
  shows "\<exists>c. matrix_with_cols c g \<and> (c = 68 \<or> (c = 61 \<and> \<not> inc))"
proof -
  from assms obtain a where a: "np_array g = Inr a"
    by (auto simp: build_frame_def split: sum.splits)
  from assms a obtain c where c: "shape_at a 1 = Inr c"
    by (auto simp: build_frame_def split: sum.splits)
  have m: "matrix_with_cols c g" by (rule np_array_Inr [OF a c])
  from assms a c have cc: "c = 68 \<or> c = 61"
    by (auto simp: build_frame_def split: if_splits)
  have "c = 68" if inc
  proof (rule ccontr)
    assume "c \<noteq> 68"
    with cc have "c = 61" by simp
    with m that have "build_frame tc s g inc = Inl ValueError"
      by (simp add: build_frame_61_emotions)
    with assms show False by simp
  qed
  with cc m show ?thesis by auto
qed

lemma save_Inr:
  assumes "save_generated_data_as_csv tc s g p inc fs = (Inr (), fs')"
  shows "\<exists>c. matrix_with_cols c g \<and> (c = 68 \<or> (c = 61 \<and> \<not> inc))"
proof -
  from assms obtain df where "build_frame tc s g inc = Inr df"
    by (auto simp: save_generated_data_as_csv_def split: sum.splits)
  then show ?thesis by (rule build_frame_Inr)
qed

lemma base_columns_split:
  "base_columns = [''Timecode'', ''BlendshapeCount''] @ drop 2 base_columns"
  by (simp add: base_columns_def)

lemma save_one_row_61:
  "save_generated_data_as_csv str_nat str_nat [replicate 61 (7::nat)] ''out.csv'' False Map.empty
     = (Inr (), [''out.csv'' \<mapsto>
          \<lparr>header = base_columns, body = [''0'' # ''61'' # replicate 61 ''7'']\<rparr>])"
  by (simp add: save_generated_data_as_csv_def build_frame_def
      np_array_def shape_at_def hstack3_def DataFrame_def length_base_columns
      slice_cols_def str_nat.simps digit_char_def)

subsection \<open>Row and column counts\<close>

text \<open>
  C2, as the specification states it, fails: a matrix of 61 columns is accepted by the
  column-count check, but with \<open>include_emotion_dimensions\<close> true the 70 column names meet
  63 data columns, the data frame is refused and nothing is written.
\<close>

theorem save_csv_61_with_emotions_counterexample:
  "matrix_with_cols 61 [replicate 61 (0::nat)] \<and>
   save_generated_data_as_csv str_nat str_nat [replicate 61 0] ''out.csv'' True Map.empty
     = (Inl ValueError, Map.empty)"
  by (simp add: matrix_with_cols_def save_generated_data_as_csv_def build_frame_def
      np_array_def shape_at_def hstack3_def DataFrame_def length_base_columns
      length_emotion_columns)

text \<open>
  C2, amended: for every input matrix with exactly 68 columns and either setting of
  \<open>include_emotion_dimensions\<close>, and for every input matrix with exactly 61 columns when
  \<open>include_emotion_dimensions\<close> is false, the exporter returns normally and writes a CSV
  whose data row count is the input row count and whose column count is that of the
  requested schema: 63 columns (two leading columns and 61 channels) without the emotion
  columns, 70 columns (two leading columns and 68 channels) with them; every data row has
  as many fields as the header.
\<close>

theorem save_csv_rows_and_columns:
  assumes "matrix_with_cols c g" and "c = 68 \<or> (c = 61 \<and> \<not> inc)"
  shows "\<exists>df. save_generated_data_as_csv tc s g p inc fs = (Inr (), fs(p \<mapsto> df)) \<and>
           length (body df) = length g \<and>
           length (header df) = (if inc then 70 else 63) \<and>
           list_all (\<lambda>r. length r = length (header df)) (body df) \<and>
           header df = (if inc then base_columns @ emotion_columns else base_columns)"
proof -
  have len: "\<And>i. i < length g \<Longrightarrow> length (g ! i) = c"
    using assms(1) by (simp add: matrix_with_cols_def list_all_length)
  show ?thesis
    using assms(2) len
    by (auto simp add: save_generated_data_as_csv_def build_frame_ok [OF assms]
      length_base_columns length_emotion_columns list_all_length)
qed

theorem save_csv_rows_and_columns_witness:
  "matrix_with_cols 68 [replicate 68 (0::nat), replicate 68 1] \<and>
   (\<exists>df. save_generated_data_as_csv str_nat str_nat [replicate 68 0, replicate 68 1]
            ''out.csv'' True Map.empty
         = (Inr (), [''out.csv'' \<mapsto> df]) \<and>
       length (body df) = 2 \<and> length (header df) = 70 \<and>
       list_all (\<lambda>r. length r = length (header df)) (body df) \<and>
       header df = base_columns @ emotion_columns)"
proof -
  have m: "matrix_with_cols 68 [replicate 68 (0::nat), replicate 68 1]"
    by (simp add: matrix_with_cols_def)
  show ?thesis
    using m save_csv_rows_and_columns [OF m, of True str_nat str_nat "''out.csv''" Map.empty]
    by (simp add: numeral_2_eq_2)
qed

subsection \<open>The header row\<close>

text \<open>
  C3, as the specification states it, fails on the count: the header of a 61-column
  export has 63 names (\<open>Timecode\<close>, \<open>BlendshapeCount\<close> and the 61 channel names), which is
  neither 61 nor 68.
\<close>

theorem save_csv_header_counterexample:
  "matrix_with_cols 61 [replicate 61 (0::nat)] \<and>
   map_option (\<lambda>df. length (header df))
     (snd (save_generated_data_as_csv str_nat str_nat [replicate 61 0] ''out.csv'' False Map.empty)
        ''out.csv'') = Some 63"
  by (simp add: matrix_with_cols_def save_generated_data_as_csv_def build_frame_def
      np_array_def shape_at_def hstack3_def DataFrame_def length_base_columns
      slice_cols_def)

text \<open>
  C3, amended: for every input on which the exporter returns normally, the header row
  written consists of 63 or 70 named columns: \<open>Timecode\<close>, \<open>BlendshapeCount\<close>, the 61 fixed
  blendshape channel names, and, when \<open>include_emotion_dimensions\<close> is true, the 7 emotion
  names, in that order.
\<close>

theorem save_csv_header:
  assumes "save_generated_data_as_csv tc s g p inc fs = (Inr (), fs')"
  shows "\<exists>df. fs' p = Some df \<and>
           header df = [''Timecode'', ''BlendshapeCount''] @ drop 2 base_columns @
                         (if inc then emotion_columns else []) \<and>
           length (drop 2 base_columns) = 61 \<and> length emotion_columns = 7 \<and>
           length (header df) = (if inc then 70 else 63)"
proof -
  from save_Inr [OF assms] obtain c where
    m: "matrix_with_cols c g" and c: "c = 68 \<or> (c = 61 \<and> \<not> inc)" by blast
  have b: "[''Timecode'', ''BlendshapeCount''] @ drop 2 base_columns = base_columns"
    using base_columns_split by simp
  show ?thesis
    using assms
    by (auto simp add: save_generated_data_as_csv_def build_frame_ok [OF m c]
        length_base_columns length_emotion_columns b simp del: append.simps)
qed

theorem save_csv_header_witness:
  "save_generated_data_as_csv str_nat str_nat [replicate 61 (7::nat)] ''out.csv'' False Map.empty
     = (Inr (), [''out.csv'' \<mapsto>
          \<lparr>header = base_columns, body = [''0'' # ''61'' # replicate 61 ''7'']\<rparr>]) \<and>
   (\<exists>df. [''out.csv'' \<mapsto> \<lparr>header = base_columns,
             body = [''0'' # ''61'' # replicate 61 ''7'']\<rparr>] ''out.csv'' = Some df \<and>
     header df = [''Timecode'', ''BlendshapeCount''] @ drop 2 base_columns @ [] \<and>
     length (drop 2 base_columns) = 61 \<and> length emotion_columns = 7 \<and>
     length (header df) = 63)"
  using save_one_row_61 save_csv_header [OF save_one_row_61] by simp

subsection \<open>The column-count error\<close>

text \<open>
  C5: for every input matrix whose column count is neither 61 nor 68, the exporter raises
  \<open>ValueError\<close> and the file system is as it was before the call: no file is written.
\<close>

theorem save_csv_bad_column_count:
  assumes "matrix_with_cols c g" and "c \<noteq> 61" and "c \<noteq> 68"
  shows "save_generated_data_as_csv tc s g p inc fs = (Inl ValueError, fs)"
  using build_frame_bad_cols [OF assms]
  by (simp add: save_generated_data_as_csv_def)

theorem save_csv_bad_column_count_witness:
  "matrix_with_cols 3 [[1, 2, 3 :: nat]] \<and> (3::nat) \<noteq> 61 \<and> (3::nat) \<noteq> 68 \<and>
   save_generated_data_as_csv str_nat str_nat [[1, 2, 3]] ''out.csv'' False Map.empty
     = (Inl ValueError, Map.empty)"
proof -
  have m: "matrix_with_cols 3 [[1, 2, 3 :: nat]]"
    by (simp add: matrix_with_cols_def)
  show ?thesis
    using m save_csv_bad_column_count [OF m, of str_nat str_nat "''out.csv''" False Map.empty]
    by simp
qed

subsection \<open>Dropping the emotion columns\<close>

text \<open>
  C6: for every input matrix with exactly 68 columns, the exporter called with
  \<open>include_emotion_dimensions\<close> false writes the 61-channel schema only: the header is the
  base column list, and row \<open>i\<close> is its timecode, the count 61 and the text of the first 61
  values of input row \<open>i\<close>, in their order; the last 7 values of every input row are not
  written.
\<close>

theorem save_csv_drops_emotions:
  assumes "matrix_with_cols 68 g"
  shows "save_generated_data_as_csv tc s g p False fs =
    (Inr (), fs(p \<mapsto> \<lparr>header = base_columns,
        body = map (\<lambda>i. tc i # ''61'' # map s (take 61 (g ! i))) [0..<length g]\<rparr>))"
  by (simp add: save_generated_data_as_csv_def build_frame_ok [OF assms] str_nat_61)

theorem save_csv_drops_emotions_witness:
  "matrix_with_cols 68 [[1 ..< 69]] \<and>
   save_generated_data_as_csv str_nat str_nat [[1 ..< 69]] ''out.csv'' False Map.empty =
    (Inr (), [''out.csv'' \<mapsto> \<lparr>header = base_columns,
        body = [''0'' # ''61'' # map str_nat [1 ..< 62]]\<rparr>])"
proof -
  have m: "matrix_with_cols 68 [[1 ..< 69]]"
    by (simp add: matrix_with_cols_def)
  have t: "take 61 [1 ..< 69] = [1 ..< 62]"
    by (simp add: take_upt)
  have z: "str_nat 0 = ''0''" by (simp add: str_nat.simps digit_char_def)
  show ?thesis
    using m save_csv_drops_emotions [OF m, of str_nat str_nat "''out.csv''" Map.empty]
    by (simp add: t z)
qed

subsection \<open>The blendshape count\<close>

text \<open>
  C7: whenever the exporter returns normally, the field of every written row under the
  header \<open>BlendshapeCount\<close> is one constant, the number of channels of the row: 61 when
  the 61-channel schema is written (the row has 2 + 61 fields), 68 when the 68-channel
  schema is written (the row has 2 + 68 fields).
\<close>

theorem save_csv_blendshape_count:
  assumes "save_generated_data_as_csv tc s g p inc fs = (Inr (), fs')"
  shows "\<exists>df. fs' p = Some df \<and> header df ! 1 = ''BlendshapeCount'' \<and>
           list_all (\<lambda>r. r ! 1 = (if inc then ''68'' else ''61'') \<and>
                          length r = 2 + (if inc then 68 else 61)) (body df)"
proof -
  from save_Inr [OF assms] obtain c where
    m: "matrix_with_cols c g" and c: "c = 68 \<or> (c = 61 \<and> \<not> inc)" by blast
  have len: "\<And>i. i < length g \<Longrightarrow> length (g ! i) = c"
    using m by (simp add: matrix_with_cols_def list_all_length)
  have h: "base_columns ! Suc 0 = ''BlendshapeCount''"
    by (simp add: base_columns_def)
  have h': "(base_columns @ emotion_columns) ! Suc 0 = ''BlendshapeCount''"
    by (simp add: base_columns_def)
  show ?thesis
    using assms c len
    by (auto simp add: save_generated_data_as_csv_def build_frame_ok [OF m c]
        list_all_length str_nat_61 str_nat_68 h h')
qed

theorem save_csv_blendshape_count_witness:
  "save_generated_data_as_csv str_nat str_nat [replicate 61 (7::nat)] ''out.csv'' False Map.empty
     = (Inr (), [''out.csv'' \<mapsto>
          \<lparr>header = base_columns, body = [''0'' # ''61'' # replicate 61 ''7'']\<rparr>]) \<and>
   (\<exists>df. [''out.csv'' \<mapsto> \<lparr>header = base_columns,
             body = [''0'' # ''61'' # replicate 61 ''7'']\<rparr>] ''out.csv'' = Some df \<and>
      header df ! 1 = ''BlendshapeCount'' \<and>
      list_all (\<lambda>r. r ! 1 = ''61'' \<and> length r = 2 + 61) (body df))"
  using save_one_row_61 save_csv_blendshape_count [OF save_one_row_61] by simp

subsection \<open>61 columns with the emotion columns asked for\<close>

text \<open>
  C10: for every input matrix with exactly 61 columns, which the column-count check
  accepts, the exporter called with \<open>include_emotion_dimensions\<close> true raises an error and
  writes nothing: the column list has 70 names, the stacked data has 63 columns, and the
  data frame constructor refuses the pair.
\<close>

theorem save_csv_61_with_emotions_fails:
  assumes "matrix_with_cols 61 g"
  shows "save_generated_data_as_csv tc s g p True fs = (Inl ValueError, fs) \<and>
         length (base_columns @ emotion_columns) = 70 \<and>
         (\<exists>data. hstack3 (map (\<lambda>i. [tc i]) [0..<length g]) (replicate (length g) [str_nat 61])
                    (map (map s) g) = Inr data \<and>
                 list_all (\<lambda>r. length r = 63) data \<and>
                 DataFrame 63 data (base_columns @ emotion_columns) = Inl ValueError)"
proof -
  have len: "\<And>i. i < length g \<Longrightarrow> length (g ! i) = 61"
    using assms by (simp add: matrix_with_cols_def list_all_length)
  then show ?thesis
    by (simp add: save_generated_data_as_csv_def build_frame_61_emotions [OF assms]
      length_base_columns length_emotion_columns hstack3_def DataFrame_def list_all_length)
qed

theorem save_csv_61_with_emotions_fails_witness:
  "matrix_with_cols 61 [replicate 61 (3::nat), replicate 61 4] \<and>
   save_generated_data_as_csv str_nat str_nat [replicate 61 (3::nat), replicate 61 4]
      ''out.csv'' True Map.empty = (Inl ValueError, Map.empty)"
proof -
  have m: "matrix_with_cols 61 [replicate 61 (3::nat), replicate 61 4]"
    by (simp add: matrix_with_cols_def)
  show ?thesis
    using m save_csv_61_with_emotions_fails [OF m, of str_nat str_nat "''out.csv''" Map.empty]
    by simp
qed

end
